theory Spec2Isabelle
  imports Complex_Main "HOL-Library.Word" "HOL-Library.AList"
begin

section \<open>The offline surface location cache (surface\_offline.py)\<close>

text \<open>
  A shallow embedding of the class \<^verbatim>\<open>Surface_Offline\<close>. Python exceptions are values of
  \<open>error\<close>, a method that can raise returns \<open>error + state\<close> (\<open>Inl\<close> the exception that
  leaves the method), attribute updates are explicit state passing. The value \<^verbatim>\<open>False\<close>
  that the code stores for a frame that is not computed yet is \<open>None\<close>, the value
  \<^verbatim>\<open>None\<close> of \<^verbatim>\<open>location_cache\<close>, \<^verbatim>\<open>location_cache_filler\<close> and
  \<^verbatim>\<open>start_idx\<close> is \<open>None\<close> as well. Frame indices are natural numbers.
  \<open>OutOfFuel\<close> is no Python exception: it is the result of a loop or of a recursion
  that has not come to an end within the given number of steps.
\<close>

datatype error = TypeError | AttributeError | IndexError | KeyError | OutOfFuel

subsection \<open>Data\<close>

text \<open>
  \<^verbatim>\<open>Surface_Location\<close>: the six attributes that \<^verbatim>\<open>update_location\<close> reads. The
  matrices are opaque values of type \<open>'m\<close>.
\<close>

record 'm Surface_Location =
  detected :: bool
  dist_img_to_surf_trans :: "'m option"
  surf_to_dist_img_trans :: "'m option"
  img_to_surf_trans :: "'m option"
  surf_to_img_trans :: "'m option"
  num_detected_markers :: nat

text \<open>
  Modelled from the spec: the constructor call \<^verbatim>\<open>Surface_Location(detected=False)\<close>; the
  class is declared in surface.py. Only a detected location carries geometry.
\<close>

definition not_detected :: "'m Surface_Location" where
  "not_detected =
     \<lparr>detected = False, dist_img_to_surf_trans = None, surf_to_dist_img_trans = None,
      img_to_surf_trans = None, surf_to_img_trans = None, num_detected_markers = 0\<rparr>"

text \<open>
  Modelled from the spec: \<^verbatim>\<open>Cache_List\<close> (cache\_list.py), a list whose entries are
  \<^verbatim>\<open>False\<close> or a value, with point lookup, slicing and the forced update of one index.
  An index outside the list raises \<^verbatim>\<open>IndexError\<close>, as for every Python list.
\<close>

type_synonym 'a Cache_List = "'a option list"

definition Cache_List_update :: "'a Cache_List \<Rightarrow> nat \<Rightarrow> 'a \<Rightarrow> error + 'a Cache_List" where
  "Cache_List_update c key item =
     (if key < length c then Inr (c[key := Some item]) else Inl IndexError)"

definition getitem :: "'a list \<Rightarrow> nat \<Rightarrow> error + 'a" where
  "getitem xs i = (if i < length xs then Inr (xs ! i) else Inl IndexError)"

text \<open>A section is \<^verbatim>\<open>slice(start, stop)\<close>; slicing a list clamps the range to the list.\<close>

record slice =
  start :: nat
  stop :: nat

definition getslice :: "'a list \<Rightarrow> slice \<Rightarrow> 'a list" where
  "getslice xs sec = take (stop sec - start sec) (drop (start sec) xs)"

text \<open>
  A marker has an \<^verbatim>\<open>id\<close>; the rest of it is opaque. An entry of the marker cache is
  \<^verbatim>\<open>False\<close> (\<open>None\<close>: not computed yet) or the list of the markers of the frame.
  \<^verbatim>\<open>{m.id: m for m in markers}\<close> is a dict, in insertion order, a later marker
  replacing an earlier one with the same id.
\<close>

record 'v marker =
  marker_id :: nat
  marker_data :: 'v

type_synonym 'v marker_cache = "'v marker list option list"

definition markers_by_id :: "'v marker list \<Rightarrow> (nat \<times> 'v marker) list" where
  "markers_by_id ms = fold (\<lambda>m d. AList.update (marker_id m) m d) ms []"

text \<open>
  The attributes of the base class \<^verbatim>\<open>Surface\<close> that this file reads and writes; the
  registered markers are opaque (\<open>'r\<close>).
\<close>

record ('m, 'r) Surface =
  build_up_status :: real
  registered_markers_undist :: 'r
  registered_markers_dist :: 'r
  surface_detected :: bool
  surface_dist_img_to_surf_trans :: "'m option"
  surface_surf_to_dist_img_trans :: "'m option"
  surface_img_to_surf_trans :: "'m option"
  surface_surf_to_img_trans :: "'m option"
  surface_num_detected_markers :: nat

text \<open>
  Modelled from the spec: the attribute \<^verbatim>\<open>defined\<close> of \<^verbatim>\<open>Surface\<close> (surface.py). This
  file never assigns it; it sets \<^verbatim>\<open>build_up_status = 1.0\<close> where the surface is to
  count as defined (the closed loop, a surface loaded from Capture).
\<close>

definition defined :: "('m, 'r) Surface \<Rightarrow> bool" where
  "defined b = (1 \<le> build_up_status b)"

text \<open>
  Modelled from the spec: the handle of a background job (background\_tasks.py).
  \<open>pending\<close> is what \<^verbatim>\<open>fetch()\<close> yields when it is called next, \<open>completed\<close> the flag.
  A job that \<^verbatim>\<open>background_data_processor\<close> has just created has produced nothing.
\<close>

record 'm job =
  pending :: "(nat \<times> 'm Surface_Location) list"
  completed :: bool

definition background_data_processor :: "'m job" where
  "background_data_processor = \<lparr>pending = [], completed = False\<rparr>"

text \<open>
  The calls to the collaborators that leave no other mark on the surface: a job is
  cancelled, a job is started (with its \<^verbatim>\<open>visited_list\<close>), the subscriber
  \<^verbatim>\<open>on_surface_change\<close> is called. They are appended to \<open>effects\<close>.
\<close>

datatype event = Job_Cancelled | Job_Started "bool list" | Surface_Changed

text \<open>
  \<^verbatim>\<open>Surface_Offline\<close>. \<open>base\<close> holds the attributes of the base class;
  \<open>cache_seek_idx\<close> is \<^verbatim>\<open>mp.Value("i", 0)\<close>, a C int of 32 bits;
  \<open>on_surface_change\<close> tells whether a subscriber is set.
\<close>

record ('m, 'r) Surface_Offline =
  base :: "('m, 'r) Surface"
  location_cache :: "'m Surface_Location Cache_List option"
  cache_seek_idx :: "32 word"
  location_cache_filler :: "'m job option"
  observations_frame_idxs :: "nat list"
  on_surface_change :: bool
  start_idx :: "nat option"
  effects :: "event list"

text \<open>
  The functions of other modules that the methods call, taken as parameters:
  \<^verbatim>\<open>Surface.locate\<close>, \<^verbatim>\<open>Surface._update_definition\<close> and \<^verbatim>\<open>Surface.prune_markers\<close>.
  The methods of the base class act on the attributes of the base class.
\<close>

record ('m, 'r, 'v, 'c) externals =
  locate :: "(nat \<times> 'v marker) list \<Rightarrow> 'c \<Rightarrow> 'r \<Rightarrow> 'r \<Rightarrow> 'm Surface_Location"
  super_update_definition ::
    "nat \<Rightarrow> (nat \<times> 'v marker) list \<Rightarrow> 'c \<Rightarrow> ('m, 'r) Surface \<Rightarrow> ('m, 'r) Surface"
  prune_markers :: "('m, 'r) Surface \<Rightarrow> ('m, 'r) Surface"

subsection \<open>map\_section and visible\_count\_in\_section\<close>

text \<open>
  \<open>location_bool\<close> is the truth value of a \<^verbatim>\<open>Surface_Location\<close> object, which its
  class decides; \<open>py_bool\<close> is \<^verbatim>\<open>bool\<close> on an entry of the cache.
\<close>

definition py_bool :: "('a \<Rightarrow> bool) \<Rightarrow> 'a option \<Rightarrow> bool" where
  "py_bool location_bool x = (case x of None \<Rightarrow> False | Some l \<Rightarrow> location_bool l)"

definition cache_positive_eval_fn :: "'m Surface_Location option \<Rightarrow> bool" where
  "cache_positive_eval_fn x = (case x of None \<Rightarrow> False | Some l \<Rightarrow> detected l)"

definition map_section ::
  "('m Surface_Location \<Rightarrow> bool) \<Rightarrow> ('t \<Rightarrow> nat \<Rightarrow> 'w) \<Rightarrow> ('g \<Rightarrow> 'w \<Rightarrow> 'e) \<Rightarrow>
   ('e \<Rightarrow> 'c \<Rightarrow> 'm option \<Rightarrow> 'o list) \<Rightarrow>
   slice \<Rightarrow> 't \<Rightarrow> 'g \<Rightarrow> 'c \<Rightarrow> ('m, 'r) Surface_Offline \<Rightarrow> 'o list list" where
  "map_section location_bool enclosing_window by_ts_window map_gaze_and_fixation_events
     sec all_world_timestamps all_gaze_events camera_model s =
     (case location_cache s of
        None \<Rightarrow> []
      | Some c \<Rightarrow>
          map (\<lambda>(i, location).
                 let frame_idx = i + start sec in
                 (case location of
                    None \<Rightarrow> []
                  | Some l \<Rightarrow>
                      if location_bool l \<and> detected l
                      then map_gaze_and_fixation_events
                             (by_ts_window all_gaze_events
                                (enclosing_window all_world_timestamps frame_idx))
                             camera_model (img_to_surf_trans l)
                      else []))
              (enumerate 0 (getslice c sec)))"

definition visible_count_in_section ::
  "('m Surface_Location \<Rightarrow> bool) \<Rightarrow> slice \<Rightarrow> ('m, 'r) Surface_Offline \<Rightarrow> nat" where
  "visible_count_in_section location_bool sec s =
     (case location_cache s of
        None \<Rightarrow> 0
      | Some c \<Rightarrow> sum_list (map (\<lambda>x. if py_bool location_bool x then 1 else 0) (getslice c sec)))"

subsection \<open>The bootstrap scan: \_build\_definition\_from\_cache\<close>

text \<open>
  \<^verbatim>\<open>Surface_Offline._update_definition\<close>: the frame is recorded, then the base class
  updates the definition.
\<close>

definition update_definition ::
  "('m, 'r, 'v, 'c) externals \<Rightarrow> nat \<Rightarrow> (nat \<times> 'v marker) list \<Rightarrow> 'c \<Rightarrow>
   ('m, 'r) Surface_Offline \<Rightarrow> ('m, 'r) Surface_Offline" where
  "update_definition E idx visible_markers camera_model s =
     s\<lparr>observations_frame_idxs := observations_frame_idxs s @ [idx],
       base := super_update_definition E idx visible_markers camera_model (base s)\<rparr>"

text \<open>
  The \<^verbatim>\<open>else\<close> of the \<^verbatim>\<open>while\<close>: it runs when the loop ends because its condition
  \<^verbatim>\<open>not self.defined\<close> has become false, and not after a \<^verbatim>\<open>break\<close>.
\<close>

definition devalidate :: "('m, 'r) Surface_Offline \<Rightarrow> ('m, 'r) Surface_Offline" where
  "devalidate s =
     (let s1 = s\<lparr>location_cache := None\<rparr>
      in if on_surface_change s1 then s1\<lparr>effects := effects s1 @ [Surface_Changed]\<rparr> else s1)"

text \<open>
  One pass through the body of the \<^verbatim>\<open>while\<close>, from a position \<open>def_idx\<close> (\<open>None\<close>
  while \<^verbatim>\<open>start_idx\<close> is unset): it raises, it leaves the loop with a \<^verbatim>\<open>break\<close>, or
  it goes on at the next position. A \<^verbatim>\<open>break\<close> tells why the loop was left.
\<close>

datatype scan_exit = Aborted_Unknown | Loop_Closed | Became_Defined

datatype 's scan_step = Scan_Raise error | Scan_Break scan_exit 's | Scan_Next nat 's

definition scan_body ::
  "('m, 'r, 'v, 'c) externals \<Rightarrow> 'c \<Rightarrow> nat \<Rightarrow> 'v marker_cache \<Rightarrow> nat option \<Rightarrow>
   ('m, 'r) Surface_Offline \<Rightarrow> ('m, 'r) Surface_Offline scan_step" where
  "scan_body E camera_model frame_idx marker_cache def_idx0 s =
     (let def_idx = (if def_idx0 = Some (length marker_cache) \<and> 0 < frame_idx
                     then Some 0 else def_idx0)
      in case (case def_idx of
                 None \<Rightarrow> Inr (False, frame_idx, s\<lparr>start_idx := Some frame_idx\<rparr>)
               | Some d \<Rightarrow>
                   (case getitem marker_cache d of
                      Inl e \<Rightarrow> Inl e
                    | Inr entry \<Rightarrow> Inr (entry = None, d, s))) of
           Inl e \<Rightarrow> Scan_Raise e
         | Inr (unknown, d, s1) \<Rightarrow>
             if unknown then Scan_Break Aborted_Unknown s1
             else
               (case (if d \<notin> set (observations_frame_idxs s1)
                      then (case getitem marker_cache d of
                              Inl e \<Rightarrow> Inl e
                            | Inr None \<Rightarrow> Inl TypeError
                            | Inr (Some markers) \<Rightarrow>
                                Inr (update_definition E d (markers_by_id markers)
                                       camera_model s1))
                      else Inr s1) of
                  Inl e \<Rightarrow> Scan_Raise e
                | Inr s2 \<Rightarrow>
                    if int d = int frame_idx - 1
                    then Scan_Break Loop_Closed
                           (s2\<lparr>base := prune_markers E ((base s2)\<lparr>build_up_status := 1\<rparr>)\<rparr>)
                    else Scan_Next (d + 1) s2))"

text \<open>
  The \<^verbatim>\<open>while\<close>, with fuel: the condition is tested first; one unit of fuel pays for
  one pass through the body.
\<close>

fun build_loop ::
  "('m, 'r, 'v, 'c) externals \<Rightarrow> nat \<Rightarrow> 'c \<Rightarrow> nat \<Rightarrow> 'v marker_cache \<Rightarrow> nat option \<Rightarrow>
   ('m, 'r) Surface_Offline \<Rightarrow> error + scan_exit \<times> ('m, 'r) Surface_Offline" where
  "build_loop E 0 camera_model frame_idx marker_cache def_idx s =
     (if defined (base s) then Inr (Became_Defined, devalidate s) else Inl OutOfFuel)"
| "build_loop E (Suc fuel) camera_model frame_idx marker_cache def_idx s =
     (if defined (base s) then Inr (Became_Defined, devalidate s)
      else
        (case scan_body E camera_model frame_idx marker_cache def_idx s of
           Scan_Raise e \<Rightarrow> Inl e
         | Scan_Break x s' \<Rightarrow> Inr (x, s')
         | Scan_Next d s' \<Rightarrow>
             build_loop E fuel camera_model frame_idx marker_cache (Some d) s'))"

definition build_definition_from_cache ::
  "('m, 'r, 'v, 'c) externals \<Rightarrow> nat \<Rightarrow> 'c \<Rightarrow> nat \<Rightarrow> 'v marker_cache \<Rightarrow>
   ('m, 'r) Surface_Offline \<Rightarrow> error + ('m, 'r) Surface_Offline" where
  "build_definition_from_cache E fuel camera_model frame_idx marker_cache s =
     (case build_loop E fuel camera_model frame_idx marker_cache (start_idx s) s of
        Inl e \<Rightarrow> Inl e
      | Inr (x, s') \<Rightarrow> Inr s')"

subsection \<open>The background job and the cache\<close>

text \<open>
  The \<^verbatim>\<open>for\<close> of \<^verbatim>\<open>_fetch_from_location_cache_filler\<close> over what \<^verbatim>\<open>fetch()\<close>
  yields. With the cache absent, \<^verbatim>\<open>self.location_cache.update\<close> raises
  \<^verbatim>\<open>AttributeError\<close>, which is caught: the job is cancelled, the handle is dropped
  and the loop is left.
\<close>

fun drain ::
  "(nat \<times> 'm Surface_Location) list \<Rightarrow> ('m, 'r) Surface_Offline \<Rightarrow>
   error + ('m, 'r) Surface_Offline" where
  "drain [] s = Inr s"
| "drain ((cache_idx, location) # rest) s =
     (case location_cache s of
        None \<Rightarrow>
          Inr (s\<lparr>location_cache_filler := None, effects := effects s @ [Job_Cancelled]\<rparr>)
      | Some c \<Rightarrow>
          (case Cache_List_update c cache_idx location of
             Inl e \<Rightarrow> Inl e
           | Inr c' \<Rightarrow> drain rest (s\<lparr>location_cache := Some c'\<rparr>)))"

text \<open>
  After the loop the code reads \<^verbatim>\<open>self.location_cache_filler.completed\<close>, on
  \<^verbatim>\<open>None\<close> an \<^verbatim>\<open>AttributeError\<close>, and calls \<^verbatim>\<open>self.on_surface_change(self)\<close>
  with no test, on \<^verbatim>\<open>None\<close> a \<^verbatim>\<open>TypeError\<close>.
\<close>

definition fetch_from_location_cache_filler ::
  "('m, 'r) Surface_Offline \<Rightarrow> error + ('m, 'r) Surface_Offline" where
  "fetch_from_location_cache_filler s =
     (case location_cache_filler s of
        None \<Rightarrow> Inr s
      | Some j \<Rightarrow>
          (case drain (pending j) (s\<lparr>location_cache_filler := Some (j\<lparr>pending := []\<rparr>)\<rparr>) of
             Inl e \<Rightarrow> Inl e
           | Inr s1 \<Rightarrow>
               (case location_cache_filler s1 of
                  None \<Rightarrow> Inl AttributeError
                | Some j1 \<Rightarrow>
                    if completed j1
                    then (if on_surface_change s1
                          then Inr (s1\<lparr>location_cache_filler := None,
                                       effects := effects s1 @ [Surface_Changed]\<rparr>)
                          else Inl TypeError)
                    else Inr s1)))"

definition recalculate_location_cache ::
  "nat \<Rightarrow> 'v marker_cache \<Rightarrow> ('m, 'r) Surface_Offline \<Rightarrow> ('m, 'r) Surface_Offline" where
  "recalculate_location_cache frame_idx marker_cache s =
     (let s1 = (case location_cache_filler s of
                  None \<Rightarrow> s
                | Some j \<Rightarrow> s\<lparr>effects := effects s @ [Job_Cancelled]\<rparr>);
          visited_list = map (\<lambda>e. e = None) marker_cache
      in s1\<lparr>cache_seek_idx := word_of_nat frame_idx,
            location_cache := Some (replicate (length marker_cache) None),
            location_cache_filler := Some background_data_processor,
            effects := effects s1 @ [Job_Started visited_list]\<rparr>)"

text \<open>
  \<^verbatim>\<open>update_location_cache\<close>. \<^verbatim>\<open>not marker_cache[frame_idx]\<close> holds for \<^verbatim>\<open>False\<close>
  and for an empty list. The \<^verbatim>\<open>except\<close> catches the \<^verbatim>\<open>AttributeError\<close> of an
  absent cache; an \<^verbatim>\<open>IndexError\<close> is not caught.
\<close>

definition on_demand_location ::
  "('m, 'r, 'v, 'c) externals \<Rightarrow> 'v marker list option \<Rightarrow> 'c \<Rightarrow> ('m, 'r) Surface_Offline \<Rightarrow>
   'm Surface_Location" where
  "on_demand_location E entry camera_model s =
     (case entry of
        None \<Rightarrow> not_detected
      | Some [] \<Rightarrow> not_detected
      | Some (m # ms) \<Rightarrow>
          locate E (markers_by_id (m # ms)) camera_model
            (registered_markers_undist (base s)) (registered_markers_dist (base s)))"

definition update_location_cache ::
  "('m, 'r, 'v, 'c) externals \<Rightarrow> nat \<Rightarrow> 'v marker_cache \<Rightarrow> 'c \<Rightarrow>
   ('m, 'r) Surface_Offline \<Rightarrow> error + ('m, 'r) Surface_Offline" where
  "update_location_cache E frame_idx marker_cache camera_model s =
     (case getitem marker_cache frame_idx of
        Inl e \<Rightarrow> Inl e
      | Inr entry \<Rightarrow>
          (let location = on_demand_location E entry camera_model s
           in case location_cache s of
                None \<Rightarrow> Inr (recalculate_location_cache frame_idx marker_cache s)
              | Some c \<Rightarrow>
                  (case Cache_List_update c frame_idx location of
                     Inl e \<Rightarrow> Inl e
                   | Inr c' \<Rightarrow> Inr (s\<lparr>location_cache := Some c'\<rparr>))))"

subsection \<open>update\_location\<close>

text \<open>The last six assignments of \<^verbatim>\<open>update_location\<close>.\<close>

definition adopt ::
  "'m Surface_Location \<Rightarrow> ('m, 'r) Surface_Offline \<Rightarrow> ('m, 'r) Surface_Offline" where
  "adopt location s =
     s\<lparr>base := (base s)\<lparr>surface_detected := detected location,
          surface_dist_img_to_surf_trans := dist_img_to_surf_trans location,
          surface_surf_to_dist_img_trans := surf_to_dist_img_trans location,
          surface_img_to_surf_trans := img_to_surf_trans location,
          surface_surf_to_img_trans := surf_to_img_trans location,
          surface_num_detected_markers := num_detected_markers location\<rparr>\<rparr>"

text \<open>
  The lookup \<^verbatim>\<open>self.location_cache[frame_idx]\<close> in its \<^verbatim>\<open>try\<close>: the \<^verbatim>\<open>TypeError\<close>
  of an absent cache is caught, the cache is recalculated and the location is
  \<^verbatim>\<open>False\<close>; an \<^verbatim>\<open>IndexError\<close> is not caught.
\<close>

definition lookup_location ::
  "nat \<Rightarrow> 'v marker_cache \<Rightarrow> ('m, 'r) Surface_Offline \<Rightarrow>
   error + 'm Surface_Location option \<times> ('m, 'r) Surface_Offline" where
  "lookup_location frame_idx marker_cache s =
     (case location_cache s of
        None \<Rightarrow> Inr (None, recalculate_location_cache frame_idx marker_cache s)
      | Some c \<Rightarrow>
          (case getitem c frame_idx of
             Inl e \<Rightarrow> Inl e
           | Inr location \<Rightarrow> Inr (location, s)))"

text \<open>
  \<^verbatim>\<open>update_location\<close> calls itself after an update on demand. \<open>depth\<close> bounds the
  nesting of these calls, \<open>fuel\<close> the passes of each bootstrap scan.
\<close>

fun update_location ::
  "('m, 'r, 'v, 'c) externals \<Rightarrow> nat \<Rightarrow> nat \<Rightarrow> nat \<Rightarrow> 'v marker_cache \<Rightarrow> 'c \<Rightarrow>
   ('m, 'r) Surface_Offline \<Rightarrow> error + ('m, 'r) Surface_Offline" where
  "update_location E fuel 0 frame_idx marker_cache camera_model s = Inl OutOfFuel"
| "update_location E fuel (Suc depth) frame_idx marker_cache camera_model s =
     (case (if \<not> defined (base s)
            then build_definition_from_cache E fuel camera_model frame_idx marker_cache s
            else Inr s) of
        Inl e \<Rightarrow> Inl e
      | Inr s1 \<Rightarrow>
          (case fetch_from_location_cache_filler s1 of
             Inl e \<Rightarrow> Inl e
           | Inr s2 \<Rightarrow>
               (case lookup_location frame_idx marker_cache s2 of
                  Inl e \<Rightarrow> Inl e
                | Inr (Some location, s3) \<Rightarrow> Inr (adopt location s3)
                | Inr (None, s3) \<Rightarrow>
                    (case getitem marker_cache frame_idx of
                       Inl e \<Rightarrow> Inl e
                     | Inr None \<Rightarrow> Inr (adopt not_detected s3)
                     | Inr (Some markers) \<Rightarrow>
                         (case update_location_cache E frame_idx marker_cache camera_model s3 of
                            Inl e \<Rightarrow> Inl e
                          | Inr s4 \<Rightarrow>
                              update_location E fuel depth frame_idx marker_cache
                                camera_model s4)))))"

subsection \<open>Editing the surface\<close>

text \<open>
  The methods of the base class are parameters: \<open>super_move_corner\<close>,
  \<open>super_add_marker\<close> and \<open>super_pop_marker\<close> act on the attributes of the base class.
\<close>

definition move_corner ::
  "('m, 'r, 'v, 'c) externals \<Rightarrow> (nat \<Rightarrow> 'p \<Rightarrow> 'c \<Rightarrow> ('m, 'r) Surface \<Rightarrow> ('m, 'r) Surface) \<Rightarrow>
   nat \<Rightarrow> 'v marker_cache \<Rightarrow> nat \<Rightarrow> 'p \<Rightarrow> 'c \<Rightarrow>
   ('m, 'r) Surface_Offline \<Rightarrow> error + ('m, 'r) Surface_Offline" where
  "move_corner E super_move_corner frame_idx marker_cache corner_idx new_pos camera_model s =
     update_location_cache E frame_idx marker_cache camera_model
       (s\<lparr>base := super_move_corner corner_idx new_pos camera_model (base s),
          location_cache := Some (replicate (length marker_cache) None)\<rparr>)"

definition add_marker ::
  "(nat \<Rightarrow> 'p \<Rightarrow> 'c \<Rightarrow> ('m, 'r) Surface \<Rightarrow> ('m, 'r) Surface) \<Rightarrow> nat \<Rightarrow> 'p \<Rightarrow> 'c \<Rightarrow>
   ('m, 'r) Surface_Offline \<Rightarrow> ('m, 'r) Surface_Offline" where
  "add_marker super_add_marker marker_id' verts_px camera_model s =
     s\<lparr>base := super_add_marker marker_id' verts_px camera_model (base s),
       location_cache := None\<rparr>"


subsection \<open>Persistence\<close>

text \<open>
  The dict that is saved and loaded: the entries of the base class (opaque,
  \<open>'d\<close>) and the two keys of this file. A key may be missing (\<open>None\<close>); the value
  of \<^verbatim>\<open>"cache"\<close> may be \<^verbatim>\<open>None\<close> (\<open>Some None\<close>). \<open>'x\<close> is a serialized location.
\<close>

record ('x, 'd) save_dict =
  super_dict :: 'd
  cache_key :: "'x list option option"
  added_in_player_key :: "(nat option \<times> nat list) option"

text \<open>The \<^verbatim>\<open>for\<close> of \<^verbatim>\<open>save_to_dict\<close>: the first \<^verbatim>\<open>False\<close> makes the result \<^verbatim>\<open>None\<close>.\<close>

fun cache_to_file ::
  "('m Surface_Location \<Rightarrow> 'x) \<Rightarrow> 'x list \<Rightarrow> 'm Surface_Location Cache_List \<Rightarrow> 'x list option" where
  "cache_to_file get_serializable_copy acc [] = Some acc"
| "cache_to_file get_serializable_copy acc (None # rest) = None"
| "cache_to_file get_serializable_copy acc (Some location # rest) =
     cache_to_file get_serializable_copy (acc @ [get_serializable_copy location]) rest"

definition save_to_dict ::
  "(('m, 'r) Surface \<Rightarrow> 'd) \<Rightarrow> ('m Surface_Location \<Rightarrow> 'x) \<Rightarrow> ('m, 'r) Surface_Offline \<Rightarrow>
   ('x, 'd) save_dict" where
  "save_to_dict super_save_to_dict get_serializable_copy s =
     \<lparr>super_dict = super_save_to_dict (base s),
      cache_key = Some (case location_cache s of
                          None \<Rightarrow> None
                        | Some c \<Rightarrow> cache_to_file get_serializable_copy [] c),
      added_in_player_key = Some (start_idx s, observations_frame_idxs s)\<rparr>"

text \<open>
  The \<^verbatim>\<open>for\<close> of \<^verbatim>\<open>_load_from_dict\<close>, which replaces each entry by the location
  loaded from it; \<open>load_from_serializable_copy\<close> may raise.
\<close>

fun load_entries :: "('x \<Rightarrow> error + 'l) \<Rightarrow> 'x list \<Rightarrow> error + 'l list" where
  "load_entries load_from_serializable_copy [] = Inr []"
| "load_entries load_from_serializable_copy (x # xs) =
     (case load_from_serializable_copy x of
        Inl e \<Rightarrow> Inl e
      | Inr l \<Rightarrow>
          (case load_entries load_from_serializable_copy xs of
             Inl e \<Rightarrow> Inl e
           | Inr ls \<Rightarrow> Inr (l # ls)))"

definition load_cache ::
  "('x \<Rightarrow> error + 'm Surface_Location) \<Rightarrow> ('x, 'd) save_dict \<Rightarrow>
   error + 'm Surface_Location Cache_List option" where
  "load_cache load_from_serializable_copy init_dict =
     (case (case cache_key init_dict of
              None \<Rightarrow> Inl KeyError
            | Some None \<Rightarrow> Inl TypeError
            | Some (Some cache) \<Rightarrow>
                (case load_entries load_from_serializable_copy cache of
                   Inl e \<Rightarrow> Inl e
                 | Inr ls \<Rightarrow> Inr (Some (map Some ls)))) of
        Inl e \<Rightarrow> if e = KeyError \<or> e = TypeError then Inr None else Inl e
      | Inr c \<Rightarrow> Inr c)"

definition load_from_dict ::
  "(('x, 'd) save_dict \<Rightarrow> ('m, 'r) Surface \<Rightarrow> ('m, 'r) Surface) \<Rightarrow>
   ('x \<Rightarrow> error + 'm Surface_Location) \<Rightarrow> ('x, 'd) save_dict \<Rightarrow>
   ('m, 'r) Surface_Offline \<Rightarrow> error + ('m, 'r) Surface_Offline" where
  "load_from_dict super_load_from_dict load_from_serializable_copy init_dict s =
     (let s1 = s\<lparr>base := super_load_from_dict init_dict (base s)\<rparr>
      in case load_cache load_from_serializable_copy init_dict of
           Inl e \<Rightarrow> Inl e
         | Inr c \<Rightarrow>
             (let s2 = s1\<lparr>location_cache := c\<rparr>
              in case added_in_player_key init_dict of
                   None \<Rightarrow>
                     Inr (s2\<lparr>observations_frame_idxs := [], start_idx := Some 0,
                             base := (base s2)\<lparr>build_up_status := 1\<rparr>\<rparr>)
                 | Some (start_idx', observations) \<Rightarrow>
                     Inr (s2\<lparr>observations_frame_idxs := observations,
                             start_idx := start_idx'\<rparr>)))"

subsection \<open>Notions used in the statements\<close>

text \<open>
  A surface is idle when it has no job, or a job with nothing to fetch that has not
  completed. \<open>write_location\<close> is the forced update of one entry of a cache that is
  present. \<open>wrap_idx\<close> is the position the scan looks at when it is at \<open>d\<close>: at
  the end of the recording it starts again from frame 0, unless the current frame is 0.
\<close>

definition idle :: "('m, 'r) Surface_Offline \<Rightarrow> bool" where
  "idle s = (case location_cache_filler s of
               None \<Rightarrow> True
             | Some j \<Rightarrow> pending j = [] \<and> \<not> completed j)"

definition write_location ::
  "nat \<Rightarrow> 'm Surface_Location \<Rightarrow> ('m, 'r) Surface_Offline \<Rightarrow> ('m, 'r) Surface_Offline" where
  "write_location frame_idx location s =
     s\<lparr>location_cache := map_option (\<lambda>c. c[frame_idx := Some location]) (location_cache s)\<rparr>"

definition wrap_idx :: "'a list \<Rightarrow> nat \<Rightarrow> nat \<Rightarrow> nat" where
  "wrap_idx mc frame_idx d = (if d = length mc \<and> 0 < frame_idx then 0 else d)"

text \<open>
  \<open>object_bool\<close> is the truth value that Python gives to an object whose class
  defines neither \<^verbatim>\<open>__bool__\<close> nor \<^verbatim>\<open>__len__\<close>: every such object is true.
  \<open>current_location\<close> is the location a surface reports: the six attributes that
  \<^verbatim>\<open>update_location\<close> assigns at its end.
\<close>

definition object_bool :: "'a \<Rightarrow> bool" where
  "object_bool x = True"

definition current_location :: "('m, 'r) Surface_Offline \<Rightarrow> 'm Surface_Location" where
  "current_location s =
     \<lparr>detected = surface_detected (base s),
      dist_img_to_surf_trans = surface_dist_img_to_surf_trans (base s),
      surf_to_dist_img_trans = surface_surf_to_dist_img_trans (base s),
      img_to_surf_trans = surface_img_to_surf_trans (base s),
      surf_to_img_trans = surface_surf_to_img_trans (base s),
      num_detected_markers = surface_num_detected_markers (base s)\<rparr>"

subsection \<open>Example data\<close>

text \<open>
  A detected location and a defined surface with no cache and no job, with natural
  numbers for the matrices; the theorems below are applied to them.
\<close>

definition example_location :: "nat Surface_Location" where
  "example_location =
     \<lparr>detected = True, dist_img_to_surf_trans = Some 1, surf_to_dist_img_trans = Some 2,
      img_to_surf_trans = Some 3, surf_to_img_trans = Some 4, num_detected_markers = 4\<rparr>"

definition example_surface :: "(nat, unit) Surface_Offline" where
  "example_surface =
     \<lparr>base = \<lparr>build_up_status = 1, registered_markers_undist = (),
               registered_markers_dist = (), surface_detected = False,
               surface_dist_img_to_surf_trans = None, surface_surf_to_dist_img_trans = None,
               surface_img_to_surf_trans = None, surface_surf_to_img_trans = None,
               surface_num_detected_markers = 0\<rparr>,
      location_cache = None, cache_seek_idx = 0, location_cache_filler = None,
      observations_frame_idxs = [], on_surface_change = False, start_idx = Some 0,
      effects = []\<rparr>"

definition example_marker :: "unit marker" where
  "example_marker = \<lparr>marker_id = 7, marker_data = ()\<rparr>"

definition example_externals :: "(nat, unit, unit, unit) externals" where
  "example_externals =
     \<lparr>locate = (\<lambda>markers camera_model undist dist.
                  example_location\<lparr>num_detected_markers := length markers\<rparr>),
      super_update_definition = (\<lambda>idx markers camera_model b.
                  if markers = [] then b
                  else b\<lparr>build_up_status := build_up_status b + 1 / 4\<rparr>),
      prune_markers = (\<lambda>b. b)\<rparr>"

definition example_job :: "nat job" where
  "example_job = \<lparr>pending = [(0, example_location)], completed = False\<rparr>"

definition example_undefined_surface :: "(nat, unit) Surface_Offline" where
  "example_undefined_surface =
     example_surface\<lparr>base := (base example_surface)\<lparr>build_up_status := 0\<rparr>,
                     start_idx := None\<rparr>"


section \<open>Properties\<close>

subsection \<open>Slices\<close>

lemma getslice_conv_nth:
  "getslice c sec = map ((!) c) [start sec ..< min (stop sec) (length c)]"
proof (rule nth_equalityI)
  show "length (getslice c sec) = length (map ((!) c) [start sec ..< min (stop sec) (length c)])"
    by (simp add: getslice_def)
next
  fix i assume i: "i < length (getslice c sec)"
  then have "i < stop sec - start sec" and "start sec + i < length c"
    by (auto simp: getslice_def)
  then show "getslice c sec ! i = map ((!) c) [start sec ..< min (stop sec) (length c)] ! i"
    by (simp add: getslice_def)
qed

lemma sum_list_indicator:
  "sum_list (map (\<lambda>x. if P x then 1 else 0) xs) = length (filter P xs)"
  by (induction xs) simp_all


subsection \<open>visible\_count\_in\_section\<close>

lemma visible_count_in_section_eq:
  "visible_count_in_section location_bool sec s =
    (case location_cache s of
       None \<Rightarrow> 0
     | Some c \<Rightarrow>
         length (filter (\<lambda>i. case c ! i of None \<Rightarrow> False | Some l \<Rightarrow> location_bool l)
                   [start sec ..< min (stop sec) (length c)]))"
proof (cases "location_cache s")
  case None
  then show ?thesis by (simp add: visible_count_in_section_def)
next
  case (Some c)
  have "py_bool location_bool = (\<lambda>x. case x of None \<Rightarrow> False | Some l \<Rightarrow> location_bool l)"
    by (auto simp: py_bool_def fun_eq_iff split: option.splits)
  then show ?thesis using Some
    by (simp add: visible_count_in_section_def sum_list_indicator getslice_conv_nth
        filter_map comp_def)
qed

text \<open>
  Claim C9 fails on the code. The count is \<^verbatim>\<open>sum(map(bool, section_cache))\<close>, the
  number of entries of the range that are true as Python values. An unknown entry is
  \<^verbatim>\<open>False\<close> and counts nothing, but a location that is not detected is an object,
  and true unless its class says otherwise: in the range from 1 to 4 of a cache with
  the entries detected, unknown, not detected, detected, one entry is detected and the
  count is 2. \<^verbatim>\<open>map_section\<close> and \<^verbatim>\<open>_cache_positive_eval_fn\<close> test the flag
  \<^verbatim>\<open>detected\<close> themselves.
\<close>

theorem visible_count_in_section_counts_not_detected:
  "visible_count_in_section object_bool \<lparr>start = 1, stop = 4\<rparr>
     (example_surface\<lparr>location_cache :=
        Some [Some example_location, None, Some not_detected, Some example_location]\<rparr>) = 2 \<and>
   length (filter cache_positive_eval_fn
             (getslice [Some example_location, None, Some not_detected, Some example_location]
                \<lparr>start = 1, stop = 4\<rparr>)) = 1 \<and>
   visible_count_in_section object_bool \<lparr>start = 0, stop = 4\<rparr> example_surface = 0"
  by (simp add: visible_count_in_section_def py_bool_def object_bool_def getslice_def
      cache_positive_eval_fn_def example_surface_def example_location_def not_detected_def)

subsection \<open>map\_section\<close>

text \<open>
  Claim C8. On an absent cache \<^verbatim>\<open>map_section\<close> returns the empty result. With a
  cache, the result has one entry for each frame of the range (a slice ends where the
  cache ends), entry \<open>i\<close> belongs to frame \<open>start + i\<close>, a detected frame yields its
  events mapped through the \<^verbatim>\<open>img_to_surf_trans\<close> stored for that frame, and every
  other frame yields the empty list. A detected location is taken to be true as a
  Python value.
\<close>

theorem map_section_aligned:
  assumes "\<forall>l. detected l \<longrightarrow> location_bool l"
  shows "(location_cache s = None \<longrightarrow>
            map_section location_bool enclosing_window by_ts_window map_gaze
              sec ts events camera_model s = []) \<and>
         (\<forall>c. location_cache s = Some c \<longrightarrow>
            length (map_section location_bool enclosing_window by_ts_window map_gaze
                      sec ts events camera_model s) = min (stop sec) (length c) - start sec \<and>
            (\<forall>i < min (stop sec) (length c) - start sec.
               map_section location_bool enclosing_window by_ts_window map_gaze
                 sec ts events camera_model s ! i =
               (case c ! (start sec + i) of
                  None \<Rightarrow> []
                | Some l \<Rightarrow>
                    if detected l
                    then map_gaze (by_ts_window events (enclosing_window ts (start sec + i)))
                           camera_model (img_to_surf_trans l)
                    else [])))"
proof (intro conjI allI impI)
  assume "location_cache s = None"
  then show "map_section location_bool enclosing_window by_ts_window map_gaze
              sec ts events camera_model s = []"
    by (simp add: map_section_def)
next
  fix c assume c: "location_cache s = Some c"
  show "length (map_section location_bool enclosing_window by_ts_window map_gaze
                  sec ts events camera_model s) = min (stop sec) (length c) - start sec"
    using c by (simp add: map_section_def getslice_conv_nth)
next
  fix c i
  assume c: "location_cache s = Some c" and i: "i < min (stop sec) (length c) - start sec"
  from i have len: "i < length (getslice c sec)" by (simp add: getslice_conv_nth)
  from i have "start sec + i < min (stop sec) (length c)" by arith
  then have nth: "getslice c sec ! i = c ! (start sec + i)"
    using i by (simp add: getslice_conv_nth)
  show "map_section location_bool enclosing_window by_ts_window map_gaze
          sec ts events camera_model s ! i =
        (case c ! (start sec + i) of
           None \<Rightarrow> []
         | Some l \<Rightarrow>
             if detected l
             then map_gaze (by_ts_window events (enclosing_window ts (start sec + i)))
                    camera_model (img_to_surf_trans l)
             else [])"
    using c len nth assms
    by (auto simp: map_section_def nth_enumerate_eq add.commute split: option.splits)
qed

theorem map_section_witness:
  "map_section detected (\<lambda>ts i. (i, Suc i)) (\<lambda>g w. filter (\<lambda>t. fst w \<le> t \<and> t < snd w) g)
     (\<lambda>es cam m. map (\<lambda>e. (e, m)) es) \<lparr>start = 1, stop = 9\<rparr> () [0, 1, 3, 3, 5::nat] ()
     (example_surface\<lparr>location_cache :=
        Some [Some example_location, None, Some not_detected, Some example_location]\<rparr>)
   = [[], [], [(3, Some 3), (3, Some 3)]] \<and>
   map_section detected (\<lambda>ts i. (i, Suc i)) (\<lambda>g w. filter (\<lambda>t. fst w \<le> t \<and> t < snd w) g)
     (\<lambda>es cam m. map (\<lambda>e. (e, m)) es) \<lparr>start = 1, stop = 9\<rparr> () [0, 1, 3, 3, 5::nat] ()
     example_surface = []"
  using map_section_aligned [of detected example_surface]
  by (simp add: map_section_def getslice_def example_surface_def example_location_def
      not_detected_def enumerate_eq_zip upt_rec)

subsection \<open>Persistence\<close>

lemma cache_to_file_eq:
  "cache_to_file get acc c =
     (if None \<in> set c then None else Some (acc @ map (\<lambda>x. get (the x)) c))"
  by (induction get acc c rule: cache_to_file.induct) auto

lemma load_entries_roundtrip:
  "\<forall>l. Some l \<in> set c \<longrightarrow> load (get l) = Inr l \<Longrightarrow> None \<notin> set c \<Longrightarrow>
   load_entries load (map (\<lambda>x. get (the x)) c) = Inr (map the c)"
  by (induction c) auto

lemma map_Some_the: "None \<notin> set c \<Longrightarrow> map (Some \<circ> the) c = c"
  by (induction c) auto

lemma location_cache_load_from_dict:
  "load_cache load d = Inr c \<Longrightarrow>
   \<exists>t'. load_from_dict super_load load d t = Inr t' \<and> location_cache t' = c"
  by (auto simp: load_from_dict_def Let_def split: option.splits)

text \<open>
  Claim C7. Saving and then loading gives back a cache with no unknown entry as it
  was, provided that loading the serializable copy of each of its locations gives that
  location back (the two methods of \<^verbatim>\<open>Surface_Location\<close> are parameters). When the
  cache is absent or has an unknown entry, the saved value of \<^verbatim>\<open>"cache"\<close> is
  \<^verbatim>\<open>None\<close>, not a part of the cache, and loading it gives an absent cache.
\<close>

theorem save_load_roundtrip:
  assumes "\<forall>l. Some l \<in> set c \<longrightarrow> load (get l) = Inr l"
  shows "(location_cache s = Some c \<and> None \<notin> set c \<longrightarrow>
            (\<exists>t'. load_from_dict super_load load (save_to_dict super_save get s) t = Inr t' \<and>
                  location_cache t' = Some c)) \<and>
         (location_cache s = None \<or> (location_cache s = Some c \<and> None \<in> set c) \<longrightarrow>
            cache_key (save_to_dict super_save get s) = Some None \<and>
            (\<exists>t'. load_from_dict super_load load (save_to_dict super_save get s) t = Inr t' \<and>
                  location_cache t' = None))"
proof (intro conjI impI)
  assume a: "location_cache s = Some c \<and> None \<notin> set c"
  then have "load_cache load (save_to_dict super_save get s) = Inr (Some c)"
    using assms
    by (simp add: load_cache_def save_to_dict_def cache_to_file_eq load_entries_roundtrip
        map_Some_the)
  then show "\<exists>t'. load_from_dict super_load load (save_to_dict super_save get s) t = Inr t' \<and>
                  location_cache t' = Some c"
    by (rule location_cache_load_from_dict)
next
  assume a: "location_cache s = None \<or> (location_cache s = Some c \<and> None \<in> set c)"
  then show "cache_key (save_to_dict super_save get s) = Some None"
    by (auto simp: save_to_dict_def cache_to_file_eq)
  then have "load_cache load (save_to_dict super_save get s) = Inr None"
    by (simp add: load_cache_def)
  then show "\<exists>t'. load_from_dict super_load load (save_to_dict super_save get s) t = Inr t' \<and>
                  location_cache t' = None"
    by (rule location_cache_load_from_dict)
qed

theorem save_load_roundtrip_witness:
  "(\<exists>t'. load_from_dict (\<lambda>d b. b) Inr
           (save_to_dict (\<lambda>b. ()) (\<lambda>l. l)
              (example_surface\<lparr>location_cache := Some [Some example_location, Some not_detected]\<rparr>))
           example_surface = Inr t' \<and>
         location_cache t' = Some [Some example_location, Some not_detected]) \<and>
   cache_key (save_to_dict (\<lambda>b. ()) (\<lambda>l. l)
                (example_surface\<lparr>location_cache := Some [Some example_location, None]\<rparr>))
     = Some None \<and>
   (\<exists>t'. load_from_dict (\<lambda>d b. b) Inr
           (save_to_dict (\<lambda>b. ()) (\<lambda>l. l)
              (example_surface\<lparr>location_cache := Some [Some example_location, None]\<rparr>))
           example_surface = Inr t' \<and>
         location_cache t' = None)"
  using save_load_roundtrip
    [where c = "[Some example_location, Some not_detected]" and load = Inr and get = "\<lambda>l. l"
       and s = "example_surface\<lparr>location_cache := Some [Some example_location, Some not_detected]\<rparr>"
       and super_load = "\<lambda>d b. b" and super_save = "\<lambda>b. ()" and t = example_surface]
    save_load_roundtrip
    [where c = "[Some example_location, None]" and load = Inr and get = "\<lambda>l. l"
       and s = "example_surface\<lparr>location_cache := Some [Some example_location, None]\<rparr>"
       and super_load = "\<lambda>d b. b" and super_save = "\<lambda>b. ()" and t = example_surface]
  by simp


subsection \<open>move\_corner\<close>

lemma update_location_cache_present:
  assumes "frame_idx < length mc" and "location_cache s = Some c" and "frame_idx < length c"
  shows "update_location_cache E frame_idx mc cam s =
           Inr (s\<lparr>location_cache :=
                   Some (c[frame_idx := Some (on_demand_location E (mc ! frame_idx) cam s)])\<rparr>)"
  using assms by (simp add: update_location_cache_def getitem_def Cache_List_update_def Let_def)

text \<open>
  Claim C10. \<^verbatim>\<open>move_corner\<close> at a frame whose marker entry is still unknown writes a
  not-detected location into the cache it has just reset, at that index:
  \<^verbatim>\<open>not marker_cache[frame_idx]\<close> holds for \<^verbatim>\<open>False\<close> as it does for an empty list.
\<close>

theorem move_corner_unknown_markers_writes_not_detected:
  assumes "frame_idx < length mc" and "mc ! frame_idx = None"
  shows "\<exists>s'. move_corner E super_move_corner frame_idx mc corner_idx new_pos cam s = Inr s' \<and>
              location_cache s' =
                Some ((replicate (length mc) None)[frame_idx := Some not_detected]) \<and>
              map_option (\<lambda>c. c ! frame_idx) (location_cache s') = Some (Some not_detected)"
  using assms
  by (simp add: move_corner_def update_location_cache_present on_demand_location_def)

theorem move_corner_unknown_markers_witness:
  "\<exists>s'. move_corner example_externals (\<lambda>corner_idx new_pos camera_model b. b) 1
          [Some [example_marker], None] 0 () () example_surface = Inr s' \<and>
        location_cache s' = Some [None, Some not_detected]"
  using move_corner_unknown_markers_writes_not_detected
    [where frame_idx = 1 and mc = "[Some [example_marker], None]" and E = example_externals
       and super_move_corner = "\<lambda>corner_idx new_pos camera_model b. b" and corner_idx = 0
       and new_pos = "()" and cam = "()" and s = example_surface]
  by auto


text \<open>
  Claim C6 as stated fails: \<^verbatim>\<open>move_corner\<close> does not cancel a job that is running.
  With a live job, the handle is still there after the call and no job was cancelled.
\<close>

theorem move_corner_keeps_live_job:
  "move_corner example_externals (\<lambda>corner_idx new_pos camera_model b. b) 0
     [Some [example_marker], None] 0 () ()
     (example_surface\<lparr>location_cache_filler := Some example_job\<rparr>) =
   Inr (example_surface\<lparr>location_cache_filler := Some example_job,
          location_cache := Some [Some (example_location\<lparr>num_detected_markers := 1\<rparr>), None]\<rparr>) \<and>
   Job_Cancelled \<notin> set (effects (example_surface\<lparr>location_cache_filler := Some example_job,
          location_cache := Some [Some (example_location\<lparr>num_detected_markers := 1\<rparr>), None]\<rparr>))"
  by (simp add: move_corner_def update_location_cache_def getitem_def Cache_List_update_def
      on_demand_location_def example_externals_def example_surface_def markers_by_id_def)


text \<open>
  Claim C6, amended. For a frame of the recording, \<^verbatim>\<open>move_corner\<close> resets the cache
  to unknown entries, as many as the marker cache has, starts no job and cancels none
  (the handle, the seek cursor and the record of calls are as before), and computes
  the edited frame only: afterwards the entry of that frame, and no other, is resolved.
\<close>

theorem move_corner_resets_and_recomputes_one:
  assumes "frame_idx < length mc"
  shows "\<exists>s' c'. move_corner E super_move_corner frame_idx mc corner_idx new_pos cam s = Inr s' \<and>
              location_cache s' = Some c' \<and> length c' = length mc \<and>
              (\<forall>i < length mc. (c' ! i \<noteq> None) = (i = frame_idx)) \<and>
              c' ! frame_idx =
                Some (on_demand_location E (mc ! frame_idx) cam
                        (s\<lparr>base := super_move_corner corner_idx new_pos cam (base s)\<rparr>)) \<and>
              location_cache_filler s' = location_cache_filler s \<and>
              effects s' = effects s \<and> cache_seek_idx s' = cache_seek_idx s"
  using assms
  by (simp add: move_corner_def update_location_cache_present on_demand_location_def
      nth_list_update split: option.splits list.splits)
theorem move_corner_resets_witness:
  "\<exists>s' c'. move_corner example_externals (\<lambda>corner_idx new_pos camera_model b. b) 0
          [Some [example_marker], None] 0 () ()
          (example_surface\<lparr>location_cache_filler := Some example_job\<rparr>) = Inr s' \<and>
        location_cache s' = Some c' \<and> length c' = 2 \<and>
        c' ! 1 = None \<and>
        c' ! 0 = Some (example_location\<lparr>num_detected_markers := 1\<rparr>) \<and>
        location_cache_filler s' = Some example_job \<and> effects s' = [] \<and> cache_seek_idx s' = 0"
  using move_corner_resets_and_recomputes_one
    [where frame_idx = 0 and mc = "[Some [example_marker], None]" and E = example_externals
       and super_move_corner = "\<lambda>corner_idx new_pos camera_model b. b" and corner_idx = 0
       and new_pos = "()" and cam = "()"
       and s = "example_surface\<lparr>location_cache_filler := Some example_job\<rparr>"]
  by (auto simp: on_demand_location_def example_externals_def example_surface_def
      markers_by_id_def)

subsection \<open>The bootstrap scan\<close>

lemma scan_body_unknown:
  assumes "(if d = length mc \<and> 0 < frame_idx then 0 else d) < length mc"
    and "mc ! (if d = length mc \<and> 0 < frame_idx then 0 else d) = None"
  shows "scan_body E cam frame_idx mc (Some d) s = Scan_Break Aborted_Unknown s"
proof (cases "d = length mc \<and> 0 < frame_idx")
  case True
  with assms have "0 < length mc" and "mc ! 0 = None" by simp_all
  with True show ?thesis by (simp add: scan_body_def getitem_def)
next
  case False
  with assms have "d < length mc" and "mc ! d = None" by auto
  with False show ?thesis by (simp add: scan_body_def getitem_def)
qed

lemma scan_body_keeps:
  "scan_body E cam frame_idx mc d s = Scan_Next d' s' \<Longrightarrow>
   location_cache s' = location_cache s \<and> effects s' = effects s"
  by (auto simp: scan_body_def getitem_def Let_def update_definition_def
      split: option.splits if_splits sum.splits)

lemma scan_body_aborted:
  "scan_body E cam frame_idx mc d s = Scan_Break Aborted_Unknown s' \<Longrightarrow> s' = s"
  by (auto simp: scan_body_def getitem_def Let_def update_definition_def
      split: option.splits if_splits sum.splits)

lemma scan_body_exits:
  "scan_body E cam frame_idx mc d s = Scan_Break x s' \<Longrightarrow> x = Aborted_Unknown \<or> x = Loop_Closed"
  by (auto simp: scan_body_def getitem_def Let_def update_definition_def
      split: option.splits if_splits sum.splits)

lemma build_loop_aborted:
  "build_loop E fuel cam frame_idx mc d s = Inr (Aborted_Unknown, s') \<Longrightarrow>
   \<not> defined (base s') \<and> location_cache s' = location_cache s \<and> effects s' = effects s"
proof (induction fuel arbitrary: d s)
  case 0
  then show ?case by (simp split: if_splits)
next
  case (Suc fuel)
  from Suc.prems have nd: "\<not> defined (base s)" by (auto split: if_splits)
  show ?case
  proof (cases "scan_body E cam frame_idx mc d s")
    case (Scan_Raise e)
    with Suc.prems nd show ?thesis by simp
  next
    case (Scan_Break x t)
    with Suc.prems nd have "x = Aborted_Unknown" and "t = s'" by simp_all
    with Scan_Break have "s' = s" by (simp add: scan_body_aborted)
    with nd show ?thesis by simp
  next
    case (Scan_Next k t)
    with Suc.prems nd have "build_loop E fuel cam frame_idx mc (Some k) t = Inr (Aborted_Unknown, s')"
      by simp
    from Suc.IH [OF this] scan_body_keeps [OF Scan_Next] show ?thesis by simp
  qed
qed

lemma scan_body_subscriber:
  "scan_body E cam f mc d s = Scan_Next k s' \<Longrightarrow> on_surface_change s' = on_surface_change s"
  "scan_body E cam f mc d s = Scan_Break x s' \<Longrightarrow>
     x \<noteq> Became_Defined \<and> location_cache s' = location_cache s \<and> effects s' = effects s"
  by (auto simp: scan_body_def getitem_def Let_def update_definition_def
      split: option.splits if_splits sum.splits)

lemma build_loop_exits:
  "build_loop E fuel cam f mc d s = Inr (x, s') \<Longrightarrow>
   (x = Became_Defined \<longrightarrow>
      defined (base s') \<and> location_cache s' = None \<and>
      effects s' = effects s @ (if on_surface_change s then [Surface_Changed] else [])) \<and>
   (x \<noteq> Became_Defined \<longrightarrow>
      location_cache s' = location_cache s \<and> effects s' = effects s)"
proof (induction fuel arbitrary: d s)
  case 0
  then show ?case by (auto simp: devalidate_def Let_def split: if_splits)
next
  case (Suc fuel)
  show ?case
  proof (cases "defined (base s)")
    case True
    with Suc.prems show ?thesis by (auto simp: devalidate_def Let_def)
  next
    case nd: False
    show ?thesis
    proof (cases "scan_body E cam f mc d s")
      case (Scan_Raise e)
      with Suc.prems nd show ?thesis by simp
    next
      case (Scan_Break y t)
      with Suc.prems nd have "y = x" and "t = s'" by simp_all
      with scan_body_subscriber(2) [OF Scan_Break] show ?thesis by simp
    next
      case (Scan_Next k t)
      with Suc.prems nd have "build_loop E fuel cam f mc (Some k) t = Inr (x, s')" by simp
      from Suc.IH [OF this] scan_body_keeps [OF Scan_Next] scan_body_subscriber(1) [OF Scan_Next]
      show ?thesis by simp
    qed
  qed
qed

text \<open>
  Claim C3 as stated fails. The scan starts at frame 0 with a subscriber set and a
  cache present, and meets an unknown marker entry at frame 2: it stops there, the
  cache is as it was and the subscriber was not called. The \<^verbatim>\<open>else\<close> of the loop,
  which discards the cache and calls the subscriber, does not run after a
  \<^verbatim>\<open>break\<close>. On a surface whose \<^verbatim>\<open>start_idx\<close> is unset, with the entry of the
  current frame unknown, the scan does not stop either: the first pass has no position
  to test, takes the current frame and raises \<^verbatim>\<open>TypeError\<close> on its entry.
\<close>

theorem scan_abort_keeps_cache:
  "build_definition_from_cache example_externals 5 () 3
     [Some [example_marker], Some [], None, Some []]
     (example_undefined_surface\<lparr>start_idx := Some 0, on_surface_change := True,
        location_cache := Some [Some example_location, None, None, None]\<rparr>) =
   Inr (example_undefined_surface\<lparr>start_idx := Some 0, on_surface_change := True,
        location_cache := Some [Some example_location, None, None, None],
        observations_frame_idxs := [0, 1],
        base := (base example_undefined_surface)\<lparr>build_up_status := 1 / 4\<rparr>\<rparr>) \<and>
   effects (example_undefined_surface\<lparr>start_idx := Some 0, on_surface_change := True,
        location_cache := Some [Some example_location, None, None, None],
        observations_frame_idxs := [0, 1],
        base := (base example_undefined_surface)\<lparr>build_up_status := 1 / 4\<rparr>\<rparr>) = [] \<and>
   build_definition_from_cache example_externals 5 () 0 [None, None]
     (example_undefined_surface\<lparr>on_surface_change := True\<rparr>) = Inl TypeError"
  by (simp add: build_definition_from_cache_def scan_body_def getitem_def defined_def
      update_definition_def markers_by_id_def example_externals_def
      example_undefined_surface_def example_surface_def eval_nat_numeral)

text \<open>
  Claim C3, amended. When the scan of a surface that is not defined tests, at its
  position \<^verbatim>\<open>def_idx\<close>, a marker entry that is unknown, it stops at once and leaves
  the surface as it is at that moment. Whenever a scan ends in this way, from whatever
  start, the surface is still not defined. The location cache is made absent and the
  subscriber, if one is set, is called once when the loop ends because the surface has
  become defined, and only then: after every other end of the loop the location cache
  and the record of calls are the ones the scan started with. (The first pass on a
  surface whose \<^verbatim>\<open>start_idx\<close> is unset has no position and makes no such test; what
  it does with an unknown entry is left out.)
\<close>

theorem scan_aborts_on_unknown_marker_entry:
  "(\<not> defined (base s) \<and>
    (if d = length mc \<and> 0 < frame_idx then 0 else d) < length mc \<and>
    mc ! (if d = length mc \<and> 0 < frame_idx then 0 else d) = None \<longrightarrow>
      build_loop E (Suc fuel) cam frame_idx mc (Some d) s = Inr (Aborted_Unknown, s)) \<and>
   (build_loop E fuel cam frame_idx mc d0 s = Inr (x, s') \<longrightarrow>
      (x = Aborted_Unknown \<longrightarrow> \<not> defined (base s')) \<and>
      (x \<noteq> Became_Defined \<longrightarrow>
         location_cache s' = location_cache s \<and> effects s' = effects s) \<and>
      (x = Became_Defined \<longrightarrow>
         defined (base s') \<and> location_cache s' = None \<and>
         effects s' = effects s @ (if on_surface_change s then [Surface_Changed] else [])))"
  using scan_body_unknown [of d mc frame_idx E cam s]
    build_loop_aborted [of E fuel cam frame_idx mc d0 s s']
    build_loop_exits [of E fuel cam frame_idx mc d0 s x s']
  by auto

theorem scan_aborts_witness:
  "build_loop example_externals (Suc 0) () 3 [Some [example_marker], Some [], None, Some []]
     (Some 2)
     (example_undefined_surface\<lparr>start_idx := Some 0, on_surface_change := True,
        location_cache := Some [Some example_location, None, None, None],
        observations_frame_idxs := [0, 1],
        base := (base example_undefined_surface)\<lparr>build_up_status := 1 / 4\<rparr>\<rparr>) =
   Inr (Aborted_Unknown,
        example_undefined_surface\<lparr>start_idx := Some 0, on_surface_change := True,
          location_cache := Some [Some example_location, None, None, None],
          observations_frame_idxs := [0, 1],
          base := (base example_undefined_surface)\<lparr>build_up_status := 1 / 4\<rparr>\<rparr>) \<and>
   build_loop example_externals 5 () 3 [Some [example_marker], Some [], None, Some []]
     (Some 0)
     (example_undefined_surface\<lparr>start_idx := Some 0, on_surface_change := True,
        location_cache := Some [Some example_location, None, None, None]\<rparr>) =
   Inr (Aborted_Unknown,
        example_undefined_surface\<lparr>start_idx := Some 0, on_surface_change := True,
          location_cache := Some [Some example_location, None, None, None],
          observations_frame_idxs := [0, 1],
          base := (base example_undefined_surface)\<lparr>build_up_status := 1 / 4\<rparr>\<rparr>) \<and>
   build_loop example_externals 5 () 0
     [Some [example_marker], Some [example_marker], Some [example_marker],
      Some [example_marker], None]
     (Some 0)
     (example_undefined_surface\<lparr>start_idx := Some 0, on_surface_change := True,
        location_cache := Some [Some example_location, None, None, None, None]\<rparr>) =
   Inr (Became_Defined,
        example_undefined_surface\<lparr>start_idx := Some 0, on_surface_change := True,
          location_cache := None, effects := [Surface_Changed],
          observations_frame_idxs := [0, 1, 2, 3],
          base := (base example_undefined_surface)\<lparr>build_up_status := 1\<rparr>\<rparr>)"
  using scan_aborts_on_unknown_marker_entry
    [where s = "example_undefined_surface\<lparr>start_idx := Some 0, on_surface_change := True,
            location_cache := Some [Some example_location, None, None, None],
            observations_frame_idxs := [0, 1],
            base := (base example_undefined_surface)\<lparr>build_up_status := 1 / 4\<rparr>\<rparr>"
       and d = 2 and frame_idx = 3 and fuel = 0
       and mc = "[Some [example_marker], Some [], None, Some []]" and E = example_externals
       and cam = "()" and ?d0.0 = "Some 2" and x = Aborted_Unknown
       and s' = "example_undefined_surface\<lparr>start_idx := Some 0, on_surface_change := True,
            location_cache := Some [Some example_location, None, None, None],
            observations_frame_idxs := [0, 1],
            base := (base example_undefined_surface)\<lparr>build_up_status := 1 / 4\<rparr>\<rparr>"]
    scan_aborts_on_unknown_marker_entry
    [where s = "example_undefined_surface\<lparr>start_idx := Some 0, on_surface_change := True,
            location_cache := Some [Some example_location, None, None, None]\<rparr>"
       and d = 0 and frame_idx = 3 and fuel = 5
       and mc = "[Some [example_marker], Some [], None, Some []]" and E = example_externals
       and cam = "()" and ?d0.0 = "Some 0" and x = Aborted_Unknown
       and s' = "example_undefined_surface\<lparr>start_idx := Some 0, on_surface_change := True,
            location_cache := Some [Some example_location, None, None, None],
            observations_frame_idxs := [0, 1],
            base := (base example_undefined_surface)\<lparr>build_up_status := 1 / 4\<rparr>\<rparr>"]
    scan_aborts_on_unknown_marker_entry
    [where s = "example_undefined_surface\<lparr>start_idx := Some 0, on_surface_change := True,
            location_cache := Some [Some example_location, None, None, None, None]\<rparr>"
       and d = 0 and frame_idx = 0 and fuel = 5
       and mc = "[Some [example_marker], Some [example_marker], Some [example_marker],
                  Some [example_marker], None]" and E = example_externals
       and cam = "()" and ?d0.0 = "Some 0" and x = Became_Defined
       and s' = "example_undefined_surface\<lparr>start_idx := Some 0, on_surface_change := True,
            location_cache := None, effects := [Surface_Changed],
            observations_frame_idxs := [0, 1, 2, 3],
            base := (base example_undefined_surface)\<lparr>build_up_status := 1\<rparr>\<rparr>"]
  by (simp add: scan_body_def getitem_def defined_def update_definition_def markers_by_id_def
      devalidate_def example_externals_def example_undefined_surface_def example_surface_def
      eval_nat_numeral)

text \<open>
  Claim C2 fails on the code, which closes the loop at \<^verbatim>\<open>frame_idx - 1\<close>. A scan that
  starts at frame 0 visits every frame of a recording of three frames, none of them
  unknown, and is not closed at the last frame: it goes on to index 3 and raises
  \<^verbatim>\<open>IndexError\<close>. A scan that started at frame 5 and is continued by a call at frame
  6 is closed at frame 5, with the frames 8 and 9 never visited.
\<close>

theorem scan_from_frame_0_never_closes:
  "build_definition_from_cache example_externals 10 () 0
     [Some [example_marker], Some [example_marker], Some []] example_undefined_surface
     = Inl IndexError \<and>
   build_definition_from_cache example_externals 10 () 6
     [Some [], Some [], Some [], Some [], Some [], Some [], Some [], Some [], None, None]
     (example_undefined_surface\<lparr>start_idx := Some 5, observations_frame_idxs := [5, 6, 7]\<rparr>)
     = Inr (example_undefined_surface\<lparr>start_idx := Some 5, observations_frame_idxs := [5, 6, 7],
              base := (base example_undefined_surface)\<lparr>build_up_status := 1\<rparr>\<rparr>)"
  by (simp add: build_definition_from_cache_def scan_body_def getitem_def defined_def
      update_definition_def markers_by_id_def example_externals_def
      example_undefined_surface_def example_surface_def eval_nat_numeral)

text \<open>
  What one pass does, by the position it looks at; a scan that was aborted at an
  unknown entry and is run again from the same start stops at the same entry and
  changes nothing.
\<close>

lemma scan_body_at:
  assumes "(if d = length mc \<and> 0 < f then Some 0 else Some d) = Some p"
  shows "scan_body E cam f mc (Some d) s =
     (if \<not> p < length mc then Scan_Raise IndexError
      else case mc ! p of
             None \<Rightarrow> Scan_Break Aborted_Unknown s
           | Some ms \<Rightarrow>
               if int p = int f - 1
               then Scan_Break Loop_Closed
                      ((if p \<notin> set (observations_frame_idxs s)
                        then update_definition E p (markers_by_id ms) cam s else s)
                       \<lparr>base := prune_markers E
                          ((base (if p \<notin> set (observations_frame_idxs s)
                                  then update_definition E p (markers_by_id ms) cam s
                                  else s))\<lparr>build_up_status := 1\<rparr>)\<rparr>)
               else Scan_Next (p + 1)
                      (if p \<notin> set (observations_frame_idxs s)
                       then update_definition E p (markers_by_id ms) cam s else s))"
  using assms by (simp add: scan_body_def getitem_def split: option.splits)

lemma scan_body_Some:
  "scan_body E cam f mc (Some d) s =
     (if \<not> wrap_idx mc f d < length mc then Scan_Raise IndexError
      else case mc ! wrap_idx mc f d of
             None \<Rightarrow> Scan_Break Aborted_Unknown s
           | Some ms \<Rightarrow>
               if int (wrap_idx mc f d) = int f - 1
               then Scan_Break Loop_Closed
                      ((if wrap_idx mc f d \<notin> set (observations_frame_idxs s)
                        then update_definition E (wrap_idx mc f d) (markers_by_id ms) cam s
                        else s)
                       \<lparr>base := prune_markers E
                          ((base (if wrap_idx mc f d \<notin> set (observations_frame_idxs s)
                                  then update_definition E (wrap_idx mc f d) (markers_by_id ms) cam s
                                  else s))\<lparr>build_up_status := 1\<rparr>)\<rparr>)
               else Scan_Next (wrap_idx mc f d + 1)
                      (if wrap_idx mc f d \<notin> set (observations_frame_idxs s)
                       then update_definition E (wrap_idx mc f d) (markers_by_id ms) cam s
                       else s))"
  by (rule scan_body_at) (simp add: wrap_idx_def)

lemma scan_body_None:
  "scan_body E cam f mc None s =
     (if f \<in> set (observations_frame_idxs s) then Scan_Next (f + 1) (s\<lparr>start_idx := Some f\<rparr>)
      else if \<not> f < length mc then Scan_Raise IndexError
      else case mc ! f of
             None \<Rightarrow> Scan_Raise TypeError
           | Some ms \<Rightarrow>
               Scan_Next (f + 1)
                 (update_definition E f (markers_by_id ms) cam (s\<lparr>start_idx := Some f\<rparr>)))"
  by (simp add: scan_body_def getitem_def split: option.splits)

lemma scan_body_observations:
  "scan_body E cam f mc d s = Scan_Next k s1 \<Longrightarrow>
     set (observations_frame_idxs s) \<subseteq> set (observations_frame_idxs s1)"
  "scan_body E cam f mc d s = Scan_Break x s1 \<Longrightarrow>
     set (observations_frame_idxs s) \<subseteq> set (observations_frame_idxs s1)"
  by (cases d; auto simp: scan_body_None scan_body_Some update_definition_def
        split: if_splits option.splits)+

lemma build_loop_observations:
  "build_loop E fuel cam f mc d s = Inr (x, s') \<Longrightarrow>
   set (observations_frame_idxs s) \<subseteq> set (observations_frame_idxs s')"
proof (induction fuel arbitrary: d s)
  case 0
  then show ?case by (auto simp: devalidate_def Let_def split: if_splits)
next
  case (Suc fuel)
  show ?case
  proof (cases "defined (base s)")
    case True
    with Suc.prems show ?thesis by (auto simp: devalidate_def Let_def)
  next
    case nd: False
    show ?thesis
    proof (cases "scan_body E cam f mc d s")
      case (Scan_Raise e)
      with Suc.prems nd show ?thesis by simp
    next
      case (Scan_Break y t)
      with Suc.prems nd have "t = s'" by simp
      with scan_body_observations(2) [OF Scan_Break] show ?thesis by simp
    next
      case (Scan_Next k t)
      with Suc.prems nd have "build_loop E fuel cam f mc (Some k) t = Inr (x, s')" by simp
      from Suc.IH [OF this] scan_body_observations(1) [OF Scan_Next] show ?thesis by blast
    qed
  qed
qed

lemma build_loop_start_idx:
  "build_loop E fuel cam f mc (Some d) s = Inr (x, s') \<Longrightarrow> start_idx s' = start_idx s"
proof (induction fuel arbitrary: d s)
  case 0
  then show ?case by (auto simp: devalidate_def Let_def split: if_splits)
next
  case (Suc fuel)
  show ?case
  proof (cases "defined (base s)")
    case True
    with Suc.prems show ?thesis by (auto simp: devalidate_def Let_def)
  next
    case nd: False
    show ?thesis
    proof (cases "scan_body E cam f mc (Some d) s")
      case (Scan_Raise e)
      with Suc.prems nd show ?thesis by simp
    next
      case (Scan_Break y t)
      with Suc.prems nd have "t = s'" by simp
      with Scan_Break show ?thesis
        by (auto simp: scan_body_Some update_definition_def split: if_splits option.splits)
    next
      case (Scan_Next k t)
      with Suc.prems nd have "build_loop E fuel cam f mc (Some k) t = Inr (x, s')" by simp
      from Suc.IH [OF this] have "start_idx s' = start_idx t" .
      moreover from Scan_Next have "start_idx t = start_idx s"
        by (auto simp: scan_body_Some update_definition_def split: if_splits option.splits)
      ultimately show ?thesis by simp
    qed
  qed
qed

lemma rescan_Some:
  assumes "build_loop E fuel cam f mc (Some d) s = Inr (Aborted_Unknown, s')"
    and "base t = base s'"
    and "set (observations_frame_idxs s') \<subseteq> set (observations_frame_idxs t)"
  shows "build_loop E fuel cam f mc (Some d) t = Inr (Aborted_Unknown, t)"
  using assms
proof (induction fuel arbitrary: d s)
  case 0
  then show ?case by (simp split: if_splits)
next
  case (Suc fuel)
  from Suc.prems(1) have nd: "\<not> defined (base s)" by (auto split: if_splits)
  from build_loop_aborted [OF Suc.prems(1)] Suc.prems(2) have ndt: "\<not> defined (base t)"
    by simp
  show ?case
  proof (cases "scan_body E cam f mc (Some d) s")
    case (Scan_Raise e)
    with Suc.prems(1) nd show ?thesis by simp
  next
    case (Scan_Break y u)
    with Suc.prems(1) nd have "y = Aborted_Unknown" by simp
    with Scan_Break have "scan_body E cam f mc (Some d) t = Scan_Break Aborted_Unknown t"
      by (auto simp: scan_body_Some split: if_splits option.splits)
    with ndt show ?thesis by simp
  next
    case (Scan_Next k u)
    with Suc.prems(1) nd
    have rest: "build_loop E fuel cam f mc (Some k) u = Inr (Aborted_Unknown, s')" by simp
    from Scan_Next have "wrap_idx mc f d \<in> set (observations_frame_idxs u)"
      by (auto simp: scan_body_Some update_definition_def split: if_splits option.splits)
    with build_loop_observations [OF rest] Suc.prems(3)
    have "wrap_idx mc f d \<in> set (observations_frame_idxs t)" by blast
    with Scan_Next have "scan_body E cam f mc (Some d) t = Scan_Next k t"
      by (auto simp: scan_body_Some split: if_splits option.splits)
    with ndt Suc.IH [OF rest Suc.prems(2,3)] show ?thesis by simp
  qed
qed

lemma rescan_after_abort:
  assumes "build_loop E fuel cam f mc (start_idx s) s = Inr (Aborted_Unknown, s')"
    and "base t = base s'"
    and "observations_frame_idxs t = observations_frame_idxs s'"
    and "start_idx t = start_idx s'"
  shows "build_definition_from_cache E fuel cam f mc t = Inr t"
proof (cases "start_idx s")
  case (Some d)
  with assms(1) have run: "build_loop E fuel cam f mc (Some d) s = Inr (Aborted_Unknown, s')"
    by simp
  from build_loop_start_idx [OF run] Some assms(4) have "start_idx t = Some d" by simp
  with rescan_Some [OF run assms(2)] assms(3) show ?thesis
    by (simp add: build_definition_from_cache_def)
next
  case None
  from build_loop_aborted [OF assms(1)] assms(2) have ndt: "\<not> defined (base t)" by simp
  from assms(1) obtain fuel' where fuel: "fuel = Suc fuel'" and nd: "\<not> defined (base s)"
    by (cases fuel) (auto split: if_splits)
  from assms(1) None nd fuel obtain u where
    first: "scan_body E cam f mc None s = Scan_Next (f + 1) u" and
    rest: "build_loop E fuel' cam f mc (Some (f + 1)) u = Inr (Aborted_Unknown, s')"
    by (auto simp: scan_body_None split: if_splits option.splits)
  from first have fu: "f \<in> set (observations_frame_idxs u)" and su: "start_idx u = Some f"
    by (auto simp: scan_body_None update_definition_def split: if_splits option.splits)
  from build_loop_observations [OF rest] fu assms(3)
  have ft: "f \<in> set (observations_frame_idxs t)" by auto
  from build_loop_start_idx [OF rest] su assms(4) have st: "start_idx t = Some f" by simp
  from rest obtain fuel'' where fuel': "fuel' = Suc fuel''" and ndu: "\<not> defined (base u)"
    by (cases fuel') (auto split: if_splits)
  from rest fuel' ndu have "wrap_idx mc f (f + 1) < length mc"
    by (auto simp: scan_body_Some split: if_splits option.splits scan_step.splits)
  then have flen: "f < length mc" by (auto simp: wrap_idx_def split: if_splits)
  then have wf: "wrap_idx mc f f = f" by (simp add: wrap_idx_def)
  have again: "build_loop E fuel' cam f mc (Some (f + 1)) t = Inr (Aborted_Unknown, t)"
    using rescan_Some [OF rest assms(2)] assms(3) by simp
  have "build_loop E fuel cam f mc (Some f) t = Inr (Aborted_Unknown, t)"
  proof (cases "mc ! f")
    case None
    with flen wf ndt fuel show ?thesis by (simp add: scan_body_Some)
  next
    case (Some ms)
    with flen wf ft have "scan_body E cam f mc (Some f) t = Scan_Next (f + 1) t"
      by (simp add: scan_body_Some)
    with ndt fuel again show ?thesis by simp
  qed
  with st show ?thesis by (simp add: build_definition_from_cache_def)
qed

subsection \<open>The job and the cache\<close>

lemma drain_filler:
  "drain ps s = Inr s' \<Longrightarrow>
   location_cache_filler s' = location_cache_filler s \<or> location_cache_filler s' = None"
  by (induction ps s rule: drain.induct)
     (auto simp: Cache_List_update_def split: option.splits if_splits)

lemma fetch_gives_idle:
  assumes "fetch_from_location_cache_filler s = Inr s'"
  shows "idle s'"
proof (cases "location_cache_filler s")
  case None
  with assms show ?thesis by (simp add: fetch_from_location_cache_filler_def idle_def)
next
  case (Some j)
  show ?thesis
  proof (cases "drain (pending j) (s\<lparr>location_cache_filler := Some (j\<lparr>pending := []\<rparr>)\<rparr>)")
    case (Inl e)
    with assms Some show ?thesis by (simp add: fetch_from_location_cache_filler_def)
  next
    case (Inr s1)
    from drain_filler [OF Inr]
    have "location_cache_filler s1 = Some (j\<lparr>pending := []\<rparr>) \<or> location_cache_filler s1 = None"
      by simp
    with assms Some Inr show ?thesis
      by (auto simp: fetch_from_location_cache_filler_def idle_def split: if_splits)
  qed
qed

lemma fetch_idle:
  "idle s \<Longrightarrow> fetch_from_location_cache_filler s = Inr s"
  by (auto simp: fetch_from_location_cache_filler_def idle_def split: option.splits)


lemma idle_cache_update [simp]: "idle (s\<lparr>location_cache := c\<rparr>) = idle s"
  by (simp add: idle_def)

lemma drain_preserves:
  "drain ps s = Inr s' \<Longrightarrow>
   base s' = base s \<and> observations_frame_idxs s' = observations_frame_idxs s \<and>
   start_idx s' = start_idx s"
  by (induction ps s rule: drain.induct)
     (auto simp: Cache_List_update_def split: option.splits if_splits)

lemma fetch_preserves:
  assumes "fetch_from_location_cache_filler s = Inr s'"
  shows "base s' = base s \<and> observations_frame_idxs s' = observations_frame_idxs s \<and>
         start_idx s' = start_idx s"
proof (cases "location_cache_filler s")
  case None
  with assms show ?thesis by (simp add: fetch_from_location_cache_filler_def)
next
  case (Some j)
  show ?thesis
  proof (cases "drain (pending j) (s\<lparr>location_cache_filler := Some (j\<lparr>pending := []\<rparr>)\<rparr>)")
    case (Inl e)
    with assms Some show ?thesis by (simp add: fetch_from_location_cache_filler_def)
  next
    case (Inr s1)
    from drain_preserves [OF Inr] assms Some Inr show ?thesis
      by (auto simp: fetch_from_location_cache_filler_def split: option.splits if_splits)
  qed
qed


lemma update_location_cache_writes:
  assumes "frame_idx < length mc" and "location_cache s = Some c" and "frame_idx < length c"
  shows "update_location_cache E frame_idx mc cam s =
           Inr (write_location frame_idx (on_demand_location E (mc ! frame_idx) cam s) s)"
  using assms
  by (simp add: update_location_cache_def getitem_def Cache_List_update_def Let_def
      write_location_def)


subsection \<open>update\_location\<close>

text \<open>
  Claim C1 fails on the code. After \<^verbatim>\<open>add_marker\<close> has made the cache absent while a
  job has a result to fetch, the next \<^verbatim>\<open>update_location\<close> raises
  \<^verbatim>\<open>AttributeError\<close>: the loop drops the handle and the code then reads
  \<^verbatim>\<open>completed\<close> from it. When the job reports completed and no subscriber is set,
  \<^verbatim>\<open>update_location\<close> raises \<^verbatim>\<open>TypeError\<close>. Both hold for every frame, marker cache
  and collaborator.
\<close>

theorem update_location_raises:
  "update_location E fuel (Suc depth) frame_idx mc cam
     (add_marker (\<lambda>marker_id verts_px camera_model b. b) 1 () cam
        (example_surface\<lparr>location_cache := Some [None],
                          location_cache_filler := Some example_job\<rparr>)) = Inl AttributeError \<and>
   update_location E fuel (Suc depth) frame_idx mc cam
     (example_surface\<lparr>location_cache := Some [None],
        location_cache_filler := Some \<lparr>pending = [], completed = True\<rparr>\<rparr>) = Inl TypeError"
  by (simp add: add_marker_def fetch_from_location_cache_filler_def defined_def
      example_surface_def example_job_def)

text \<open>
  The first step of \<^verbatim>\<open>update_location\<close>, the bootstrap scan of a surface that is not
  defined, and the call that \<^verbatim>\<open>update_location\<close> makes to itself.
\<close>

lemma bootstrap_first:
  assumes "defined (base s) \<and> s1 = s \<or>
           \<not> defined (base s) \<and>
           build_loop E fuel cam frame_idx mc (start_idx s) s = Inr (x, s1) \<and>
           (x = Aborted_Unknown \<or> defined (base s1))"
  shows "(if \<not> defined (base s) then build_definition_from_cache E fuel cam frame_idx mc s
          else Inr s) = Inr s1"
  using assms by (auto simp: build_definition_from_cache_def)

lemma bootstrap_settled:
  assumes "defined (base s) \<and> s1 = s \<or>
           \<not> defined (base s) \<and>
           build_loop E fuel cam frame_idx mc (start_idx s) s = Inr (x, s1) \<and>
           (x = Aborted_Unknown \<or> defined (base s1))"
    and "base t = base s1"
    and "observations_frame_idxs t = observations_frame_idxs s1"
    and "start_idx t = start_idx s1"
  shows "defined (base t) \<or> build_definition_from_cache E fuel cam frame_idx mc t = Inr t"
proof (cases "defined (base s1)")
  case True
  with assms(2) show ?thesis by simp
next
  case False
  with assms(1) have "build_loop E fuel cam frame_idx mc (start_idx s) s = Inr (Aborted_Unknown, s1)"
    by auto
  from rescan_after_abort [OF this assms(2-4)] show ?thesis by simp
qed

lemma reentry_adopts:
  assumes "defined (base s) \<or> build_definition_from_cache E fuel cam frame_idx mc s = Inr s"
    and "idle s" and "location_cache s = Some c" and "frame_idx < length c"
    and "c ! frame_idx = Some location"
  shows "update_location E fuel (Suc depth) frame_idx mc cam s = Inr (adopt location s)"
proof -
  have "(if \<not> defined (base s) then build_definition_from_cache E fuel cam frame_idx mc s
         else Inr s) = Inr s"
    using assms(1) by auto
  moreover have "fetch_from_location_cache_filler s = Inr s"
    using assms(2) by (rule fetch_idle)
  moreover have "lookup_location frame_idx mc s = Inr (Some location, s)"
    using assms(3-5) by (simp add: lookup_location_def getitem_def)
  ultimately show ?thesis by simp
qed



text \<open>The definitions that the evaluation of a call on the example data unfolds.\<close>

lemmas eval_defs =
  build_definition_from_cache_def scan_body_def getitem_def defined_def update_definition_def
  markers_by_id_def example_externals_def example_surface_def example_undefined_surface_def
  example_location_def example_marker_def
  fetch_from_location_cache_filler_def lookup_location_def recalculate_location_cache_def
  background_data_processor_def update_location_cache_def on_demand_location_def
  Cache_List_update_def adopt_def write_location_def not_detected_def Let_def

text \<open>
  Claim C5 as stated fails for a frame whose marker entry is an empty list: the marker
  cache has data for the frame, and the code writes a not-detected location without a
  call of \<^verbatim>\<open>Surface.locate\<close> (\<^verbatim>\<open>not marker_cache[frame_idx]\<close> holds for an empty
  list). Here the call reports not detected on a surface that reported detected
  before, while \<open>locate\<close> of the example gives another location for no markers.
\<close>

theorem update_location_empty_markers_without_locate:
  "update_location example_externals (Suc 0) (Suc (Suc 0)) 0 [Some []] ()
     (example_surface
        \<lparr>location_cache := Some [None],
         base := (base example_surface)
           \<lparr>surface_detected := True, surface_num_detected_markers := 3\<rparr>\<rparr>) =
     Inr (example_surface\<lparr>location_cache := Some [Some not_detected]\<rparr>) \<and>
   locate example_externals (markers_by_id []) () () () =
     example_location\<lparr>num_detected_markers := 0\<rparr> \<and>
   example_location\<lparr>num_detected_markers := 0\<rparr> \<noteq> (not_detected :: nat Surface_Location)"
  by (simp add: eval_defs)

text \<open>
  Claim C5, amended. The bootstrap step of the call has ended, the surface being
  defined or the scan aborted at an unknown marker entry, the job has been drained,
  and the entry of the cache at \<^verbatim>\<open>frame_idx\<close> is unknown. When the marker cache has a
  list of markers for the frame, the location is taken at once: the result of
  \<^verbatim>\<open>Surface.locate\<close> on the markers by id, the camera model and the registered
  markers when the list is not empty, a not-detected location when it is empty. It is
  written into the cache with force, \<^verbatim>\<open>update_location\<close> is entered again on that
  cache, and the call ends with the surface reporting exactly this location, the cache
  holding it at \<^verbatim>\<open>frame_idx\<close>. When the marker cache has no data for the frame
  either, the call ends with the surface reporting not detected and the cache as it
  was, the entry still unknown.
\<close>

theorem update_location_unknown_entry:
  assumes "defined (base s) \<and> s1 = s \<or>
           \<not> defined (base s) \<and>
           build_loop E fuel cam frame_idx mc (start_idx s) s = Inr (x, s1) \<and>
           (x = Aborted_Unknown \<or> defined (base s1))"
    and "fetch_from_location_cache_filler s1 = Inr s2"
    and "location_cache s2 = Some c" and "frame_idx < length c" and "c ! frame_idx = None"
    and "frame_idx < length mc"
    and "location = on_demand_location E (mc ! frame_idx) cam s2"
  shows "(mc ! frame_idx = Some [] \<longrightarrow> location = not_detected) \<and>
         (\<forall>m ms. mc ! frame_idx = Some (m # ms) \<longrightarrow>
            location = locate E (markers_by_id (m # ms)) cam
                         (registered_markers_undist (base s2))
                         (registered_markers_dist (base s2))) \<and>
         (mc ! frame_idx \<noteq> None \<longrightarrow>
            update_location E fuel (Suc depth) frame_idx mc cam s =
              update_location E fuel depth frame_idx mc cam
                (write_location frame_idx location s2) \<and>
            location_cache (write_location frame_idx location s2) =
              Some (c[frame_idx := Some location]) \<and>
            update_location E fuel (Suc (Suc depth)) frame_idx mc cam s =
              Inr (adopt location (write_location frame_idx location s2)) \<and>
            current_location (adopt location (write_location frame_idx location s2)) =
              location \<and>
            location_cache (adopt location (write_location frame_idx location s2)) =
              Some (c[frame_idx := Some location])) \<and>
         (mc ! frame_idx = None \<longrightarrow>
            update_location E fuel (Suc depth) frame_idx mc cam s = Inr (adopt not_detected s2) \<and>
            current_location (adopt not_detected s2) = not_detected \<and>
            location_cache (adopt not_detected s2) = Some c)"
proof -
  let ?s4 = "write_location frame_idx location s2"
  note first = bootstrap_first [OF assms(1)]
  have look: "lookup_location frame_idx mc s2 = Inr (None, s2)"
    using assms(3-5) by (simp add: lookup_location_def getitem_def)
  have get: "getitem mc frame_idx = Inr (mc ! frame_idx)"
    using assms(6) by (simp add: getitem_def)
  have upd: "update_location_cache E frame_idx mc cam s2 = Inr ?s4"
    unfolding assms(7) using assms(6,3,4) by (rule update_location_cache_writes)
  have step: "update_location E fuel (Suc d) frame_idx mc cam s =
                update_location E fuel d frame_idx mc cam ?s4"
    if "mc ! frame_idx \<noteq> None" for d
    using that first assms(2) look get upd by auto
  have cache4: "location_cache ?s4 = Some (c[frame_idx := Some location])"
    using assms(3) by (simp add: write_location_def)
  have unknown: "update_location E fuel (Suc depth) frame_idx mc cam s = Inr (adopt not_detected s2)"
    if "mc ! frame_idx = None"
    using that first assms(2) look get by simp
  have adopts: "update_location E fuel (Suc (Suc depth)) frame_idx mc cam s
                  = Inr (adopt location ?s4)"
    if known: "mc ! frame_idx \<noteq> None"
  proof -
    have "idle ?s4"
      using fetch_gives_idle [OF assms(2)] by (simp add: write_location_def)
    moreover have "defined (base ?s4) \<or>
                   build_definition_from_cache E fuel cam frame_idx mc ?s4 = Inr ?s4"
      using fetch_preserves [OF assms(2)]
      by (intro bootstrap_settled [OF assms(1)]) (simp_all add: write_location_def)
    moreover have "(c[frame_idx := Some location]) ! frame_idx = Some location"
      using assms(4) by simp
    moreover have "frame_idx < length (c[frame_idx := Some location])"
      using assms(4) by simp
    ultimately have "update_location E fuel (Suc depth) frame_idx mc cam ?s4
                       = Inr (adopt location ?s4)"
      using cache4
      by (intro reentry_adopts [where c = "c[frame_idx := Some location]"
            and location = location])
    with step [OF known, of "Suc depth"] show ?thesis by simp
  qed
  have reported: "current_location (adopt l t) = l" for l :: "'a Surface_Location"
    and t :: "('a, 'b) Surface_Offline"
    by (simp add: current_location_def adopt_def)
  have kept: "location_cache (adopt l t) = location_cache t" for l :: "'a Surface_Location"
    and t :: "('a, 'b) Surface_Offline"
    by (simp add: adopt_def)
  have via: "mc ! frame_idx = Some (m # ms) \<Longrightarrow>
               location = locate E (markers_by_id (m # ms)) cam
                            (registered_markers_undist (base s2))
                            (registered_markers_dist (base s2))" for m ms
    by (simp add: assms(7) on_demand_location_def)
  have empty: "mc ! frame_idx = Some [] \<Longrightarrow> location = not_detected"
    by (simp add: assms(7) on_demand_location_def)
  show ?thesis
    using step [of depth] cache4 adopts unknown assms(3) via empty
    by (simp add: reported kept)
qed

theorem update_location_unknown_entry_witness:
  "update_location example_externals (Suc (Suc 0)) (Suc (Suc 0)) 0
       [Some [example_marker], None] ()
       (example_surface\<lparr>location_cache := Some [None, None]\<rparr>) =
     Inr (example_surface
            \<lparr>location_cache := Some [Some (example_location\<lparr>num_detected_markers := 1\<rparr>), None],
             base := (base example_surface)
               \<lparr>surface_detected := True, surface_dist_img_to_surf_trans := Some 1,
                surface_surf_to_dist_img_trans := Some 2, surface_img_to_surf_trans := Some 3,
                surface_surf_to_img_trans := Some 4, surface_num_detected_markers := 1\<rparr>\<rparr>) \<and>
   update_location example_externals (Suc (Suc 0)) (Suc 0) (Suc 0)
       [Some [example_marker], None] ()
       (example_surface
          \<lparr>location_cache := Some [None, None],
           base := (base example_surface)
             \<lparr>surface_detected := True, surface_num_detected_markers := 3\<rparr>\<rparr>) =
     Inr (example_surface\<lparr>location_cache := Some [None, None]\<rparr>) \<and>
   update_location example_externals (Suc (Suc 0)) (Suc (Suc 0)) 0
       [Some [example_marker], None] ()
       (example_undefined_surface
          \<lparr>start_idx := Some 0, observations_frame_idxs := [0],
           location_cache := Some [None, None]\<rparr>) =
     Inr (example_undefined_surface
            \<lparr>start_idx := Some 0, observations_frame_idxs := [0],
             location_cache := Some [Some (example_location\<lparr>num_detected_markers := 1\<rparr>), None],
             base := (base example_undefined_surface)
               \<lparr>surface_detected := True, surface_dist_img_to_surf_trans := Some 1,
                surface_surf_to_dist_img_trans := Some 2, surface_img_to_surf_trans := Some 3,
                surface_surf_to_img_trans := Some 4, surface_num_detected_markers := 1\<rparr>\<rparr>)"
  using update_location_unknown_entry
    [where s = "example_surface\<lparr>location_cache := Some [None, None]\<rparr>"
       and ?s1.0 = "example_surface\<lparr>location_cache := Some [None, None]\<rparr>"
       and ?s2.0 = "example_surface\<lparr>location_cache := Some [None, None]\<rparr>"
       and c = "[None, None]"
       and E = example_externals and fuel = "Suc (Suc 0)" and cam = "()" and frame_idx = 0
       and depth = 0 and mc = "[Some [example_marker], None]"
       and location = "example_location\<lparr>num_detected_markers := 1\<rparr>"]
    update_location_unknown_entry
    [where s = "example_surface
          \<lparr>location_cache := Some [None, None],
           base := (base example_surface)
             \<lparr>surface_detected := True, surface_num_detected_markers := 3\<rparr>\<rparr>"
       and ?s1.0 = "example_surface
          \<lparr>location_cache := Some [None, None],
           base := (base example_surface)
             \<lparr>surface_detected := True, surface_num_detected_markers := 3\<rparr>\<rparr>"
       and ?s2.0 = "example_surface
          \<lparr>location_cache := Some [None, None],
           base := (base example_surface)
             \<lparr>surface_detected := True, surface_num_detected_markers := 3\<rparr>\<rparr>"
       and c = "[None, None]"
       and E = example_externals and fuel = "Suc (Suc 0)" and cam = "()"
       and frame_idx = "Suc 0" and depth = 0 and mc = "[Some [example_marker], None]"
       and location = not_detected]
    update_location_unknown_entry
    [where s = "example_undefined_surface
          \<lparr>start_idx := Some 0, observations_frame_idxs := [0],
           location_cache := Some [None, None]\<rparr>"
       and ?s1.0 = "example_undefined_surface
          \<lparr>start_idx := Some 0, observations_frame_idxs := [0],
           location_cache := Some [None, None]\<rparr>"
       and ?s2.0 = "example_undefined_surface
          \<lparr>start_idx := Some 0, observations_frame_idxs := [0],
           location_cache := Some [None, None]\<rparr>"
       and x = Aborted_Unknown and c = "[None, None]"
       and E = example_externals and fuel = "Suc (Suc 0)" and cam = "()" and frame_idx = 0
       and depth = 0 and mc = "[Some [example_marker], None]"
       and location = "example_location\<lparr>num_detected_markers := 1\<rparr>"]
  by (simp add: eval_defs)



end
